theory Spec2Isabelle
  imports Main "HOL-Library.Word"
begin

unbundle bit_operations_syntax

section \<open>Values of the wrapped library, as the examples use them\<close>

text \<open>
  The examples exchange values with the wrapped library through \<^verbatim>\<open>opcua::Variant\<close>.
  Only the payload types the examples under study read or write are listed; a variant is
  empty, or holds one scalar or one array. \<^verbatim>\<open>int32_t\<close> is a 32-bit word (addition
  wraps), \<^verbatim>\<open>UA_Byte\<close> an 8-bit word, \<^verbatim>\<open>opcua::DateTime\<close> a tick count.
\<close>

type_synonym int32_t = "32 word"
type_synonym UA_Byte = "8 word"
type_synonym DateTime = int

datatype Variant =
    VEmpty
  | VBoolean bool
  | VByte UA_Byte
  | VInt32 int32_t
  | VString string
  | VDateTime DateTime
  | VInt32Array "int32_t list"

text \<open>
  What the calls of the examples raise: \<^verbatim>\<open>Span::at\<close> throws
  \<^verbatim>\<open>std::out_of_range\<close>; the typed accessors of a variant
  (\<^verbatim>\<open>scalar<T>()\<close>, \<^verbatim>\<open>array<T>()\<close>, \<^verbatim>\<open>to<T>()\<close>) throw when the variant
  does not hold a value of that shape and type; the services throw
  \<^verbatim>\<open>opcua::BadStatus\<close>.
\<close>

datatype error = OutOfRange | BadVariantAccess | BadStatus

definition at :: "'a list \<Rightarrow> nat \<Rightarrow> error + 'a" where
  "at xs i = (if i < length xs then Inr (xs ! i) else Inl OutOfRange)"

fun scalar_String :: "Variant \<Rightarrow> error + string" where
  "scalar_String (VString s) = Inr s"
| "scalar_String _ = Inl BadVariantAccess"

fun scalar_Int32 :: "Variant \<Rightarrow> error + int32_t" where
  "scalar_Int32 (VInt32 n) = Inr n"
| "scalar_Int32 _ = Inl BadVariantAccess"

fun scalar_Boolean :: "Variant \<Rightarrow> error + bool" where
  "scalar_Boolean (VBoolean b) = Inr b"
| "scalar_Boolean _ = Inl BadVariantAccess"

fun scalar_Byte :: "Variant \<Rightarrow> error + UA_Byte" where
  "scalar_Byte (VByte b) = Inr b"
| "scalar_Byte _ = Inl BadVariantAccess"

fun array_Int32 :: "Variant \<Rightarrow> error + int32_t list" where
  "array_Int32 (VInt32Array xs) = Inr xs"
| "array_Int32 _ = Inl BadVariantAccess"

section \<open>The method handlers of server\_method\_annotated.cpp\<close>

text \<open>
  A handler receives two spans: the constant input arguments and the output arguments
  it assigns. The record holds both, so that a theorem can say what a call leaves
  unchanged.
\<close>

record method_call =
  input_span :: "Variant list"
  output_span :: "Variant list"

text \<open>
  The lambda registered as \<^verbatim>\<open>Greet\<close>: reads the first input as a string, builds
  \<^verbatim>\<open>std::string{"Hello "}.append(name)\<close> and assigns it to the first output.
\<close>

definition Greet :: "method_call \<Rightarrow> error + method_call" where
  "Greet c =
     (case at (input_span c) 0 of Inl e \<Rightarrow> Inl e | Inr a \<Rightarrow>
      case scalar_String a of Inl e \<Rightarrow> Inl e | Inr name \<Rightarrow>
      let greeting = ''Hello '' @ name in
      case at (output_span c) 0 of Inl e \<Rightarrow> Inl e | Inr _ \<Rightarrow>
      Inr (c\<lparr>output_span := (output_span c)[0 := VString greeting]\<rparr>))"

text \<open>
  The lambda registered as \<^verbatim>\<open>IncInt32ArrayValues\<close>. The inner lambda
  \<^verbatim>\<open>[&](auto v) { return v + delta; }\<close> is \<open>inc\<close>; \<^verbatim>\<open>std::transform\<close> over the
  whole input range into a vector of the same size is \<open>map\<close>. Both operands are
  \<^verbatim>\<open>int32_t\<close>; the sum is the one the machine computes, in 32-bit two's complement
  (the C++ standard itself leaves a signed sum that overflows undefined).
\<close>

definition inc :: "int32_t \<Rightarrow> int32_t \<Rightarrow> int32_t" where
  "inc delta v = v + delta"

definition IncInt32ArrayValues :: "method_call \<Rightarrow> error + method_call" where
  "IncInt32ArrayValues c =
     (case at (input_span c) 0 of Inl e \<Rightarrow> Inl e | Inr a0 \<Rightarrow>
      case array_Int32 a0 of Inl e \<Rightarrow> Inl e | Inr values \<Rightarrow>
      case at (input_span c) 1 of Inl e \<Rightarrow> Inl e | Inr a1 \<Rightarrow>
      case scalar_Int32 a1 of Inl e \<Rightarrow> Inl e | Inr delta \<Rightarrow>
      let incremented = map (inc delta) values in
      case at (output_span c) 0 of Inl e \<Rightarrow> Inl e | Inr _ \<Rightarrow>
      Inr (c\<lparr>output_span := (output_span c)[0 := VInt32Array incremented]\<rparr>))"

section \<open>The type converter of typeconversion\_annotated.cpp\<close>

text \<open>
  \<^verbatim>\<open>std::byte\<close> is an enumeration over \<^verbatim>\<open>unsigned char\<close>: a value is the byte it was
  built from. The specialisation \<^verbatim>\<open>TypeConverter<std::byte>\<close> names \<^verbatim>\<open>UA_Byte\<close> as
  the native type and gives the two conversions: \<^verbatim>\<open>std::byte{src}\<close> and
  \<^verbatim>\<open>std::to_integer<UA_Byte>(src)\<close>.
\<close>

datatype std_byte = Byte UA_Byte

definition fromNative :: "UA_Byte \<Rightarrow> std_byte" where
  "fromNative src = Byte src"

fun toNative :: "std_byte \<Rightarrow> UA_Byte" where
  "toNative (Byte b) = b"

text \<open>
  With the converter in place the library stores a \<^verbatim>\<open>std::byte\<close> as its native value
  (\<^verbatim>\<open>variant.assign(std::byte{11})\<close>) and reads it back through \<^verbatim>\<open>fromNative\<close>
  (\<^verbatim>\<open>variant.to<std::byte>()\<close>).
\<close>

definition assign_std_byte :: "std_byte \<Rightarrow> Variant" where
  "assign_std_byte b = VByte (toNative b)"

definition to_std_byte :: "Variant \<Rightarrow> error + std_byte" where
  "to_std_byte v = (case scalar_Byte v of Inl e \<Rightarrow> Inl e | Inr u \<Rightarrow> Inr (fromNative u))"

text \<open>
  The first three demonstrations of \<^verbatim>\<open>main\<close>: write \<^verbatim>\<open>std::byte{11}\<close>, read the native
  byte and compare it with 11, read the \<^verbatim>\<open>std::byte\<close> and compare it with 11. The result
  holds the outcome of the two comparisons.
\<close>

definition typeconversion_main :: "error + (bool \<times> bool)" where
  "typeconversion_main =
     (let variant = assign_std_byte (Byte 11) in
      case scalar_Byte variant of Inl e \<Rightarrow> Inl e | Inr valueNative \<Rightarrow>
      case to_std_byte variant of Inl e \<Rightarrow> Inl e | Inr v \<Rightarrow>
      Inr (uint valueNative = 11, uint (toNative v) = 11))"

section \<open>The access control of server\_accesscontrol\_annotated.cpp\<close>

type_synonym StatusCode = "32 word"
type_synonym QualifiedName = "nat \<times> string"

datatype NodeId = NumericNodeId nat nat | StringNodeId nat string

definition UA_STATUSCODE_GOOD :: StatusCode where
  "UA_STATUSCODE_GOOD = 0"

text \<open>
  The user identity token reaches \<^verbatim>\<open>activateSession\<close> as an extension object: without
  a body, with an encoded body, or decoded as one of the token types.
  \<^verbatim>\<open>decodedData<UserNameIdentityToken>()\<close> is a null pointer unless the object is decoded
  as a user name token.
\<close>

datatype ExtensionObject =
    NoBody
  | EncodedBody
  | AnonymousIdentityToken
  | UserNameIdentityToken (userName: string) (password: string)
  | X509IdentityToken
  | IssuedIdentityToken

fun decodedData_UserNameIdentityToken :: "ExtensionObject \<Rightarrow> ExtensionObject option" where
  "decodedData_UserNameIdentityToken (UserNameIdentityToken u p) = Some (UserNameIdentityToken u p)"
| "decodedData_UserNameIdentityToken _ = None"

text \<open>
  A session, as far as the example uses it: its attributes, keyed by qualified name.
  Reading an attribute that was never set throws \<^verbatim>\<open>opcua::BadStatus\<close>.
\<close>

record Session =
  sessionAttributes :: "QualifiedName \<rightharpoonup> Variant"

definition setSessionAttribute :: "Session \<Rightarrow> QualifiedName \<Rightarrow> Variant \<Rightarrow> Session" where
  "setSessionAttribute session key v =
     session\<lparr>sessionAttributes := (sessionAttributes session)(key \<mapsto> v)\<rparr>"

definition getSessionAttribute :: "Session \<Rightarrow> QualifiedName \<Rightarrow> error + Variant" where
  "getSessionAttribute session key =
     (case sessionAttributes session key of None \<Rightarrow> Inl BadStatus | Some v \<Rightarrow> Inr v)"

text \<open>The access level bits of OPC UA: reading is bit 0, writing bit 1.\<close>

definition CurrentRead :: UA_Byte where
  "CurrentRead = 1"

definition CurrentWrite :: UA_Byte where
  "CurrentWrite = 2"

text \<open>
  \<^verbatim>\<open>AccessControlCustom::activateSession\<close>. The implementation of the base class
  \<^verbatim>\<open>AccessControlDefault\<close> belongs to the library and is the parameter \<open>base\<close>; it
  receives the session as the override left it and the other three arguments as they
  came.
\<close>

definition AccessControlCustom_activateSession ::
  "(Session \<Rightarrow> 'e \<Rightarrow> 'c \<Rightarrow> ExtensionObject \<Rightarrow> StatusCode)
     \<Rightarrow> Session \<Rightarrow> 'e \<Rightarrow> 'c \<Rightarrow> ExtensionObject \<Rightarrow> Session \<times> StatusCode" where
  "AccessControlCustom_activateSession base session endpointDescription
       secureChannelRemoteCertificate userIdentityToken =
     (let token = decodedData_UserNameIdentityToken userIdentityToken;
          isAdmin = (case token of None \<Rightarrow> False | Some t \<Rightarrow> userName t = ''admin'');
          session' = setSessionAttribute session (0, ''isAdmin'') (VBoolean isAdmin)
      in (session',
          base session' endpointDescription secureChannelRemoteCertificate userIdentityToken))"

definition AccessControlCustom_getUserAccessLevel :: "Session \<Rightarrow> NodeId \<Rightarrow> error + UA_Byte" where
  "AccessControlCustom_getUserAccessLevel session nodeId =
     (case getSessionAttribute session (0, ''isAdmin'') of Inl e \<Rightarrow> Inl e | Inr v \<Rightarrow>
      case scalar_Boolean v of Inl e \<Rightarrow> Inl e | Inr isAdmin \<Rightarrow>
      if isAdmin then Inr (CurrentRead OR CurrentWrite) else Inr CurrentRead)"

section \<open>The data source of server\_datasource\_annotated.cpp\<close>

text \<open>
  \<^verbatim>\<open>DataSource<T>\<close> has one member, \<^verbatim>\<open>T data\<close>. The two library conversions it calls
  depend on \<open>T\<close> and are parameters of the model: \<open>mk\<close> is \<^verbatim>\<open>opcua::Variant{data}\<close>,
  \<open>to\<close> is \<^verbatim>\<open>Variant::to<T>()\<close>, which throws when the variant does not hold a \<open>T\<close>.
  The clock read by \<^verbatim>\<open>opcua::DateTime::now()\<close> is the parameter \<open>now\<close>. A data value
  is the variant and the optional source timestamp.
\<close>

record DataValue =
  dv_value :: Variant
  sourceTimestamp :: "DateTime option"

record 'a DataSource =
  data :: 'a

definition DataSource_read ::
  "('a \<Rightarrow> Variant) \<Rightarrow> DateTime \<Rightarrow> 'a DataSource \<Rightarrow> DataValue \<Rightarrow> bool
     \<Rightarrow> 'a DataSource \<times> DataValue \<times> StatusCode" where
  "DataSource_read mk now this dv timestamp =
     (let dv1 = dv\<lparr>dv_value := mk (data this)\<rparr>;
          dv2 = (if timestamp then dv1\<lparr>sourceTimestamp := Some now\<rparr> else dv1)
      in (this, dv2, UA_STATUSCODE_GOOD))"

definition DataSource_write ::
  "(Variant \<Rightarrow> error + 'a) \<Rightarrow> 'a DataSource \<Rightarrow> DataValue
     \<Rightarrow> error + ('a DataSource \<times> StatusCode)" where
  "DataSource_write to this dv =
     (case to (dv_value dv) of Inl e \<Rightarrow> Inl e
      | Inr x \<Rightarrow> Inr (this\<lparr>data := x\<rparr>, UA_STATUSCODE_GOOD))"

section \<open>The program client\_connect\_annotated.cpp\<close>

text \<open>
  Modelled from the spec: \<^verbatim>\<open>helper.hpp\<close>, which defines \<^verbatim>\<open>CliParser\<close>, is not among the
  supplied files, and the spec says of it only that one example parses its command line ad
  hoc. The model follows the use \<^verbatim>\<open>main\<close> makes of the parser and the comments there: the
  parser holds the argument vector, program name included; \<^verbatim>\<open>nargs\<close> is its length,
  \<^verbatim>\<open>hasFlag\<close> tells whether an argument equals the flag, and \<^verbatim>\<open>value\<close> is the argument
  that follows the option, if there is one.
\<close>

record CliParser =
  args :: "string list"

definition nargs :: "CliParser \<Rightarrow> nat" where
  "nargs parser = length (args parser)"

definition hasFlag :: "CliParser \<Rightarrow> string \<Rightarrow> bool" where
  "hasFlag parser flag = (flag \<in> set (args parser))"

definition option_value :: "CliParser \<Rightarrow> string \<Rightarrow> string option" where
  "option_value parser opt =
     (case dropWhile (\<lambda>a. a \<noteq> opt) (args parser) of
        _ # v # _ \<Rightarrow> Some v
      | _ \<Rightarrow> None)"

text \<open>
  What the server does to the one run: whether \<^verbatim>\<open>Client::connect\<close> throws, and what
  \<^verbatim>\<open>Node::readValue\<close> returns for the current time node, a bad status or a variant.
\<close>

datatype 'a Result = BadResult (result_status: StatusCode) | GoodResult (result_value: 'a)

fun hasValue :: "'a Result \<Rightarrow> bool" where
  "hasValue (GoodResult _) = True"
| "hasValue (BadResult _) = False"

record server_answers =
  connect_throws :: bool
  read_result :: "Variant Result"

fun to_DateTime :: "Variant \<Rightarrow> error + DateTime" where
  "to_DateTime (VDateTime t) = Inr t"
| "to_DateTime _ = Inl BadVariantAccess"

text \<open>
  The steps of \<^verbatim>\<open>main\<close> a run can be told by, in the order they happen; the console
  lines other than the usage text and the two reports of the read are left out. A run
  ends by returning an exit code, or by an exception nothing catches.
\<close>

datatype connect_step =
    UsagePrinted
  | ClientConstructed
  | UserIdentityTokenSet string string
  | ConnectCalled string
  | ConnectFailureReported
  | ReadValueCalled
  | TimeReported DateTime
  | ReadFailureReported StatusCode
  | DisconnectCalled

datatype program_end = Returned int | Uncaught error

definition client_connect_main :: "string list \<Rightarrow> server_answers \<Rightarrow> connect_step list \<times> program_end" where
  "client_connect_main argv server =
     (let parser = \<lparr>args = argv\<rparr> in
      if nargs parser < 2 \<or> hasFlag parser ''-h'' \<or> hasFlag parser ''--help''
      then ([UsagePrinted], Returned 2)
      else
        let serverUrl = args parser ! (nargs parser - 1);
            username = option_value parser ''--username'';
            password = option_value parser ''--password'';
            configured =
              (case username of
                 None \<Rightarrow> [ClientConstructed]
               | Some u \<Rightarrow>
                   [ClientConstructed,
                    UserIdentityTokenSet u (case password of None \<Rightarrow> [] | Some pw \<Rightarrow> pw)])
        in if connect_throws server
           then (configured @ [ConnectCalled serverUrl, ConnectFailureReported], Returned 1)
           else
             let result = read_result server;
                 connected = configured @ [ConnectCalled serverUrl, ReadValueCalled]
             in if hasValue result
                then
                  (case to_DateTime (result_value result) of
                     Inl e \<Rightarrow> (connected, Uncaught e)
                   | Inr dt \<Rightarrow> (connected @ [TimeReported dt, DisconnectCalled], Returned 0))
                else
                  (connected @ [ReadFailureReported (result_status result), DisconnectCalled],
                   Returned 0))"

section \<open>The program client\_subscription\_annotated.cpp\<close>

text \<open>
  The signals the example names, and one more with the same default action (ending the
  process). The handler clears \<^verbatim>\<open>isRunning\<close> for \<^verbatim>\<open>SIGINT\<close> and \<^verbatim>\<open>SIGTERM\<close>;
  \<^verbatim>\<open>main\<close> installs it with \<^verbatim>\<open>std::signal(SIGINT, signalHandler)\<close> and for no other
  signal.
\<close>

datatype signal = SIGINT | SIGTERM | SIGHUP

definition signalHandler :: "signal \<Rightarrow> bool \<Rightarrow> bool" where
  "signalHandler sig isRunning = (if sig = SIGINT \<or> sig = SIGTERM then False else isRunning)"

definition installed :: "signal \<Rightarrow> bool" where
  "installed sig = (sig = SIGINT)"

text \<open>
  A delivered signal runs the handler if one is installed for it; otherwise its default
  action ends the process (\<open>Inl\<close>).
\<close>

definition deliver :: "signal \<Rightarrow> bool \<Rightarrow> signal + bool" where
  "deliver sig isRunning = (if installed sig then Inr (signalHandler sig isRunning) else Inl sig)"

fun deliver_all :: "signal list \<Rightarrow> bool \<Rightarrow> signal + bool" where
  "deliver_all [] isRunning = Inr isRunning"
| "deliver_all (sig # sigs) isRunning =
     (case deliver sig isRunning of Inl k \<Rightarrow> Inl k | Inr r \<Rightarrow> deliver_all sigs r)"

text \<open>
  The program blocks in library calls and in the sleep. The environment gives, for each
  such call in turn, the signals that arrive while it runs and whether the call throws
  \<^verbatim>\<open>opcua::BadStatus\<close>; a finite list of them is a finite observation of a run, and a
  program that has used them all is still running. The flag is read at the loop heads only,
  so nothing is lost by letting signals arrive during calls.
\<close>

record tick =
  arriving :: "signal list"
  badStatus :: bool

datatype client_call = Connect | RunIterate nat | Disconnect | Sleep nat

datatype run_end = Exited int | KilledBy signal | UncaughtBadStatus | StillRunning

definition after :: "client_call list \<Rightarrow> client_call list \<times> run_end \<Rightarrow> client_call list \<times> run_end" where
  "after calls r = (calls @ fst r, snd r)"

text \<open>
  The end of \<^verbatim>\<open>main\<close>: \<^verbatim>\<open>client.disconnect()\<close> inside a handler for every
  \<^verbatim>\<open>std::exception\<close>, then \<^verbatim>\<open>return 0\<close>.
\<close>

fun shutdown :: "bool \<Rightarrow> tick list \<Rightarrow> client_call list \<times> run_end" where
  "shutdown isRunning [] = ([], StillRunning)"
| "shutdown isRunning (t # ts) =
     (case deliver_all (arriving t) isRunning of
        Inl k \<Rightarrow> ([Disconnect], KilledBy k)
      | Inr _ \<Rightarrow> ([Disconnect], Exited 0))"

text \<open>
  The reconnect loop, the polling loop inside it, and the handler for
  \<^verbatim>\<open>opcua::BadStatus\<close>, which disconnects and sleeps for three seconds. An exception
  thrown by the disconnect of the handler leaves \<^verbatim>\<open>main\<close> uncaught.
\<close>

fun outer_loop :: "bool \<Rightarrow> tick list \<Rightarrow> client_call list \<times> run_end"
  and inner_loop :: "bool \<Rightarrow> tick list \<Rightarrow> client_call list \<times> run_end"
  and catch_BadStatus :: "bool \<Rightarrow> tick list \<Rightarrow> client_call list \<times> run_end" where
  "outer_loop isRunning ts =
     (if isRunning then
        (case ts of
           [] \<Rightarrow> ([], StillRunning)
         | t # ts' \<Rightarrow>
             (case deliver_all (arriving t) isRunning of
                Inl k \<Rightarrow> ([Connect], KilledBy k)
              | Inr r \<Rightarrow>
                  if badStatus t then after [Connect] (catch_BadStatus r ts')
                  else after [Connect] (inner_loop r ts')))
      else shutdown isRunning ts)"
| "inner_loop isRunning ts =
     (if isRunning then
        (case ts of
           [] \<Rightarrow> ([], StillRunning)
         | t # ts' \<Rightarrow>
             (case deliver_all (arriving t) isRunning of
                Inl k \<Rightarrow> ([RunIterate 100], KilledBy k)
              | Inr r \<Rightarrow>
                  if badStatus t then after [RunIterate 100] (catch_BadStatus r ts')
                  else after [RunIterate 100] (inner_loop r ts')))
      else outer_loop isRunning ts)"
| "catch_BadStatus isRunning [] = ([], StillRunning)"
| "catch_BadStatus isRunning (t # ts) =
     (case deliver_all (arriving t) isRunning of
        Inl k \<Rightarrow> ([Disconnect], KilledBy k)
      | Inr r \<Rightarrow>
          if badStatus t then ([Disconnect], UncaughtBadStatus)
          else
            (case ts of
               [] \<Rightarrow> ([Disconnect], StillRunning)
             | t' # ts' \<Rightarrow>
                 (case deliver_all (arriving t') r of
                    Inl k \<Rightarrow> ([Disconnect, Sleep 3], KilledBy k)
                  | Inr r' \<Rightarrow> after [Disconnect, Sleep 3] (outer_loop r' ts'))))"

declare outer_loop.simps [simp del] inner_loop.simps [simp del]

definition client_subscription_main :: "tick list \<Rightarrow> client_call list \<times> run_end" where
  "client_subscription_main ts = outer_loop True ts"

section \<open>Properties of the method handlers\<close>

lemma at_Inr_iff: "at xs i = Inr x \<longleftrightarrow> i < length xs \<and> xs ! i = x"
  by (auto simp: at_def)

lemma at_in_range: "i < length xs \<Longrightarrow> at xs i = Inr (xs ! i)"
  by (simp add: at_def)

lemma IncInt32ArrayValues_result:
  assumes "2 \<le> length (input_span c)"
    and "input_span c ! 0 = VInt32Array v"
    and "input_span c ! 1 = VInt32 delta"
    and "output_span c \<noteq> []"
  shows "IncInt32ArrayValues c =
           Inr (c\<lparr>output_span := (output_span c)[0 := VInt32Array (map (inc delta) v)]\<rparr>)"
proof -
  from assms(1) have "at (input_span c) 0 = Inr (input_span c ! 0)"
    and "at (input_span c) 1 = Inr (input_span c ! 1)"
    by (auto simp: at_def)
  moreover from assms(4) have "at (output_span c) 0 = Inr (output_span c ! 0)"
    by (simp add: at_def)
  ultimately show ?thesis
    using assms(2,3) by (simp add: IncInt32ArrayValues_def)
qed

lemma Greet_result:
  assumes "input_span c \<noteq> []"
    and "input_span c ! 0 = VString name"
    and "output_span c \<noteq> []"
  shows "Greet c = Inr (c\<lparr>output_span := (output_span c)[0 := VString (''Hello '' @ name)]\<rparr>)"
  using assms by (simp add: Greet_def at_def)

lemma sint_inc: "sint (inc delta v) = signed_take_bit 31 (sint v + sint delta)"
  by (simp add: inc_def sint_word_ariths)

lemma sint_inc_no_overflow:
  assumes "- (2 ^ 31) \<le> sint v + sint delta" and "sint v + sint delta < 2 ^ 31"
  shows "sint (inc delta v) = sint v + sint delta"
  using assms by (simp add: sint_inc signed_take_bit_int_eq_self)

text \<open>
  C8. For every call of the \<^verbatim>\<open>IncInt32ArrayValues\<close> handler whose first input holds an
  int32 array \<open>v\<close> and whose second input holds an int32 scalar \<open>delta\<close> (and that has a
  first output to write to), the handler succeeds, the first output holds an int32 array
  \<open>r\<close> of the length of \<open>v\<close> with \<open>r ! i = v ! i + delta\<close> in 32-bit wrap-around
  arithmetic (read as signed numbers: the sum reduced to 32-bit two's complement), and
  the input arguments are the ones received.
\<close>

theorem IncInt32ArrayValues_adds_delta:
  assumes "2 \<le> length (input_span c)"
    and "input_span c ! 0 = VInt32Array v"
    and "input_span c ! 1 = VInt32 delta"
    and "output_span c \<noteq> []"
  shows "\<exists>c' r. IncInt32ArrayValues c = Inr c' \<and> input_span c' = input_span c
           \<and> output_span c' ! 0 = VInt32Array r \<and> length r = length v
           \<and> (\<forall>i<length v. r ! i = v ! i + delta
                 \<and> sint (r ! i) = signed_take_bit 31 (sint (v ! i) + sint delta))"
proof -
  let ?r = "map (inc delta) v"
  let ?c' = "c\<lparr>output_span := (output_span c)[0 := VInt32Array ?r]\<rparr>"
  have run: "IncInt32ArrayValues c = Inr ?c'"
    using assms by (rule IncInt32ArrayValues_result)
  have out: "output_span ?c' ! 0 = VInt32Array ?r"
    using assms(4) by simp
  have elems: "\<forall>i<length v. ?r ! i = v ! i + delta
                 \<and> sint (?r ! i) = signed_take_bit 31 (sint (v ! i) + sint delta)"
    by (simp add: sint_inc) (simp add: inc_def)
  from run out elems show ?thesis by auto
qed

theorem IncInt32ArrayValues_adds_delta_witness:
  "IncInt32ArrayValues \<lparr>input_span = [VInt32Array [1, 2, 2147483647], VInt32 1], output_span = [VEmpty]\<rparr>
     = Inr \<lparr>input_span = [VInt32Array [1, 2, 2147483647], VInt32 1],
            output_span = [VInt32Array [2, 3, - 2147483648]]\<rparr>"
proof -
  let ?c = "\<lparr>input_span = [VInt32Array [1, 2, 2147483647], VInt32 1], output_span = [VEmpty]\<rparr>"
  have "\<exists>c' r. IncInt32ArrayValues ?c = Inr c' \<and> input_span c' = input_span ?c
           \<and> output_span c' ! 0 = VInt32Array r \<and> length r = length [1, 2, 2147483647 :: int32_t]
           \<and> (\<forall>i<length [1, 2, 2147483647 :: int32_t]. r ! i = [1, 2, 2147483647] ! i + 1
                 \<and> sint (r ! i) = signed_take_bit 31 (sint ([1, 2, 2147483647 :: int32_t] ! i) + sint (1 :: int32_t)))"
    by (rule IncInt32ArrayValues_adds_delta) simp_all
  then show ?thesis
    by (simp add: IncInt32ArrayValues_def at_def inc_def)
qed

text \<open>
  C1 (as stated, refuted). The claim says the handlers registered for \<^verbatim>\<open>Greet\<close> and
  \<^verbatim>\<open>IncInt32ArrayValues\<close> only pass values through to the library. On the inputs below
  each handler leaves in its first output a value that is none of the values it received:
  a string it concatenated, an array it summed.
\<close>

theorem handlers_pass_through_counterexample:
  "Greet \<lparr>input_span = [VString ''World''], output_span = [VEmpty]\<rparr>
     = Inr \<lparr>input_span = [VString ''World''], output_span = [VString ''Hello World'']\<rparr>
   \<and> VString ''Hello World'' \<notin> set [VString ''World'', VEmpty]
   \<and> IncInt32ArrayValues \<lparr>input_span = [VInt32Array [1, 2, 3], VInt32 10], output_span = [VEmpty]\<rparr>
     = Inr \<lparr>input_span = [VInt32Array [1, 2, 3], VInt32 10],
            output_span = [VInt32Array [11, 12, 13]]\<rparr>
   \<and> VInt32Array [11, 12, 13] \<notin> set [VInt32Array [1, 2, 3], VInt32 10, VEmpty]"
  by (simp add: Greet_def IncInt32ArrayValues_def at_def inc_def)

lemma Greet_returns:
  assumes "Greet c = Inr c'"
  shows "\<exists>name. at (input_span c) 0 = Inr (VString name)
           \<and> c' = c\<lparr>output_span := (output_span c)[0 := VString (''Hello '' @ name)]\<rparr>"
proof -
  from assms obtain a where a: "at (input_span c) 0 = Inr a"
    by (auto simp: Greet_def split: sum.splits)
  with assms obtain name where n: "scalar_String a = Inr name"
    by (auto simp: Greet_def split: sum.splits)
  then have "a = VString name" by (cases a) simp_all
  with assms a show ?thesis
    by (auto simp: Greet_def split: sum.splits)
qed

lemma IncInt32ArrayValues_returns:
  assumes "IncInt32ArrayValues c = Inr c'"
  shows "\<exists>v delta. at (input_span c) 0 = Inr (VInt32Array v)
           \<and> at (input_span c) 1 = Inr (VInt32 delta)
           \<and> c' = c\<lparr>output_span := (output_span c)[0 := VInt32Array (map (\<lambda>x. x + delta) v)]\<rparr>"
proof -
  from assms obtain a0 where a0: "at (input_span c) 0 = Inr a0"
    by (auto simp: IncInt32ArrayValues_def split: sum.splits)
  with assms obtain v where v: "array_Int32 a0 = Inr v"
    by (auto simp: IncInt32ArrayValues_def split: sum.splits)
  with assms a0 obtain a1 where a1: "at (input_span c) 1 = Inr a1"
    by (auto simp: IncInt32ArrayValues_def split: sum.splits)
  with assms a0 v obtain delta where d: "scalar_Int32 a1 = Inr delta"
    by (auto simp: IncInt32ArrayValues_def split: sum.splits)
  from v have "a0 = VInt32Array v" by (cases a0) simp_all
  moreover from d have "a1 = VInt32 delta" by (cases a1) simp_all
  moreover have "inc delta = (\<lambda>x. x + delta)"
    by (rule ext) (simp add: inc_def)
  ultimately show ?thesis
    using assms a0 a1 by (auto simp: IncInt32ArrayValues_def split: sum.splits)
qed

text \<open>
  C1 (amended). The two handlers compute their results themselves, from values they get
  through the library's accessors: whenever \<^verbatim>\<open>Greet\<close> returns, its first input held a
  string \<open>name\<close> and the call differs from the one received only in the first output, which
  holds \<open>''Hello ''\<close> followed by \<open>name\<close>; whenever \<^verbatim>\<open>IncInt32ArrayValues\<close> returns, its
  first two inputs held an int32 array \<open>v\<close> and an int32 \<open>delta\<close> and the first output holds
  the array of the sums \<open>v ! i + delta\<close>.
\<close>

theorem handlers_compute_their_outputs:
  "(Greet c = Inr c' \<longrightarrow>
      (\<exists>name. at (input_span c) 0 = Inr (VString name)
         \<and> c' = c\<lparr>output_span := (output_span c)[0 := VString (''Hello '' @ name)]\<rparr>))
   \<and> (IncInt32ArrayValues c = Inr c' \<longrightarrow>
      (\<exists>v delta. at (input_span c) 0 = Inr (VInt32Array v)
         \<and> at (input_span c) 1 = Inr (VInt32 delta)
         \<and> c' = c\<lparr>output_span := (output_span c)[0 := VInt32Array (map (\<lambda>x. x + delta) v)]\<rparr>))"
  using Greet_returns IncInt32ArrayValues_returns by blast

theorem handlers_compute_their_outputs_witness:
  "Greet \<lparr>input_span = [VString ''OPC''], output_span = [VEmpty]\<rparr>
     = Inr \<lparr>input_span = [VString ''OPC''], output_span = [VString ''Hello OPC'']\<rparr>
   \<and> (\<exists>name. at [VString ''OPC''] 0 = Inr (VString name)
         \<and> [VString ''Hello OPC''] = [VEmpty][0 := VString (''Hello '' @ name)])
   \<and> IncInt32ArrayValues \<lparr>input_span = [VInt32Array [5, 6], VInt32 2], output_span = [VEmpty]\<rparr>
     = Inr \<lparr>input_span = [VInt32Array [5, 6], VInt32 2], output_span = [VInt32Array [7, 8]]\<rparr>
   \<and> (\<exists>v delta. at [VInt32Array [5, 6], VInt32 2] 0 = Inr (VInt32Array v)
         \<and> at [VInt32Array [5, 6], VInt32 2] 1 = Inr (VInt32 delta)
         \<and> [VInt32Array [7, 8]] = [VEmpty][0 := VInt32Array (map (\<lambda>x. x + delta) v)])"
proof -
  let ?c = "\<lparr>input_span = [VString ''OPC''], output_span = [VEmpty]\<rparr>"
  let ?c' = "\<lparr>input_span = [VString ''OPC''], output_span = [VString ''Hello OPC'']\<rparr>"
  let ?d = "\<lparr>input_span = [VInt32Array [5, 6], VInt32 2], output_span = [VEmpty]\<rparr>"
  let ?d' = "\<lparr>input_span = [VInt32Array [5, 6], VInt32 2], output_span = [VInt32Array [7, 8]]\<rparr>"
  have run: "Greet ?c = Inr ?c'"
    by (simp add: Greet_def at_def)
  with handlers_compute_their_outputs [of ?c ?c']
  obtain name where "at (input_span ?c) 0 = Inr (VString name)"
    and "?c' = ?c\<lparr>output_span := (output_span ?c)[0 := VString (''Hello '' @ name)]\<rparr>"
    by blast
  with run have greet: "Greet ?c = Inr ?c'
    \<and> (\<exists>name. at [VString ''OPC''] 0 = Inr (VString name)
         \<and> [VString ''Hello OPC''] = [VEmpty][0 := VString (''Hello '' @ name)])"
    by auto
  have run': "IncInt32ArrayValues ?d = Inr ?d'"
    by (simp add: IncInt32ArrayValues_def at_def inc_def)
  with handlers_compute_their_outputs [of ?d ?d']
  obtain v delta where "at (input_span ?d) 0 = Inr (VInt32Array v)"
    and "at (input_span ?d) 1 = Inr (VInt32 delta)"
    and "?d' = ?d\<lparr>output_span := (output_span ?d)[0 := VInt32Array (map (\<lambda>x. x + delta) v)]\<rparr>"
    by blast
  with run' have "IncInt32ArrayValues ?d = Inr ?d'
    \<and> (\<exists>v delta. at [VInt32Array [5, 6], VInt32 2] 0 = Inr (VInt32Array v)
         \<and> at [VInt32Array [5, 6], VInt32 2] 1 = Inr (VInt32 delta)
         \<and> [VInt32Array [7, 8]] = [VEmpty][0 := VInt32Array (map (\<lambda>x. x + delta) v)])"
    by auto
  with greet show ?thesis by blast
qed

section \<open>Properties of the type converter\<close>

text \<open>
  C2 (as stated, refuted). The claim says no supplied file introduces a mapping of its own
  between a C++ type and a native OPC UA type. The converter of
  typeconversion\_annotated.cpp is such a mapping: through it \<^verbatim>\<open>std::byte{11}\<close> is held by
  the variant as the native byte 11, and the native byte 11 is read back as
  \<^verbatim>\<open>std::byte{11}\<close>, which is what the two checks of its \<^verbatim>\<open>main\<close> observe.
\<close>

theorem own_type_mapping_counterexample:
  "assign_std_byte (Byte 11) = VByte 11
   \<and> to_std_byte (VByte 11) = Inr (Byte 11)
   \<and> typeconversion_main = Inr (True, True)"
  by (simp add: assign_std_byte_def to_std_byte_def typeconversion_main_def fromNative_def)

text \<open>
  C2 (amended). typeconversion\_annotated.cpp introduces its own mapping between the C++
  type \<^verbatim>\<open>std::byte\<close> and the native type \<^verbatim>\<open>UA_Byte\<close>: \<^verbatim>\<open>fromNative\<close> and \<^verbatim>\<open>toNative\<close> are
  inverse to each other, so a \<^verbatim>\<open>std::byte\<close> written to a variant is held there as its
  native byte and is read back unchanged.
\<close>

theorem TypeConverter_std_byte_round_trip:
  "toNative (fromNative u) = u
   \<and> fromNative (toNative b) = b
   \<and> scalar_Byte (assign_std_byte b) = Inr (toNative b)
   \<and> to_std_byte (assign_std_byte b) = Inr b"
  by (cases b) (simp add: fromNative_def assign_std_byte_def to_std_byte_def)

section \<open>Properties of the data source\<close>

lemma DataSource_read_result:
  "DataSource_read mk now this dv timestamp =
     (this,
      \<lparr>dv_value = mk (data this),
       sourceTimestamp = (if timestamp then Some now else sourceTimestamp dv)\<rparr>,
      UA_STATUSCODE_GOOD)"
  by (simp add: DataSource_read_def)

lemma DataSource_write_converts:
  "to (dv_value dv) = Inr y \<Longrightarrow>
     DataSource_write to this dv = Inr (this\<lparr>data := y\<rparr>, UA_STATUSCODE_GOOD)"
  by (simp add: DataSource_write_def)

lemma DataSource_write_throws:
  "to (dv_value dv) = Inl e \<Longrightarrow> DataSource_write to this dv = Inl e"
  by (simp add: DataSource_write_def)

text \<open>
  C10 (as stated, refuted). The claim says \<^verbatim>\<open>write\<close> returns \<^verbatim>\<open>UA_STATUSCODE_GOOD\<close> on
  every call. The data source of \<^verbatim>\<open>main\<close> (\<^verbatim>\<open>DataSource<int>\<close>, holding 42) receives a
  data value that holds a string: the conversion throws and no status is returned.
\<close>

theorem DataSource_write_counterexample:
  "DataSource_write scalar_Int32 \<lparr>data = 42\<rparr> \<lparr>dv_value = VString ''42'', sourceTimestamp = None\<rparr>
     = Inl BadVariantAccess"
  by (simp add: DataSource_write_def)

text \<open>
  C10 (amended). For the templated data source and every value \<open>x\<close> of its element type
  (one the library converts to a variant and back): a write with a data value holding \<open>x\<close>
  returns \<^verbatim>\<open>UA_STATUSCODE_GOOD\<close>, and every read after it yields a data value whose value
  is \<open>x\<close>. A read leaves the stored data unchanged and returns \<^verbatim>\<open>UA_STATUSCODE_GOOD\<close> on
  every call. A write returns \<^verbatim>\<open>UA_STATUSCODE_GOOD\<close> whenever the data value holds a value
  of the element type; when it does not, the conversion throws.
\<close>

theorem DataSource_write_then_read:
  assumes "to (mk x) = Inr x"
  shows "DataSource_write to this (dv\<lparr>dv_value := mk x\<rparr>)
           = Inr (this\<lparr>data := x\<rparr>, UA_STATUSCODE_GOOD)
         \<and> (\<exists>dv'. DataSource_read mk now (this\<lparr>data := x\<rparr>) dv0 timestamp
                     = (this\<lparr>data := x\<rparr>, dv', UA_STATUSCODE_GOOD)
                  \<and> dv_value dv' = mk x \<and> to (dv_value dv') = Inr x)
         \<and> fst (DataSource_read mk now this dv0 timestamp) = this
         \<and> snd (snd (DataSource_read mk now this dv0 timestamp)) = UA_STATUSCODE_GOOD
         \<and> (\<forall>y. to (dv_value dv) = Inr y \<longrightarrow>
               DataSource_write to this dv = Inr (this\<lparr>data := y\<rparr>, UA_STATUSCODE_GOOD))
         \<and> (\<forall>e. to (dv_value dv) = Inl e \<longrightarrow> DataSource_write to this dv = Inl e)"
  using assms
  by (simp add: DataSource_read_result DataSource_write_converts DataSource_write_throws)

theorem DataSource_write_then_read_witness:
  "scalar_Int32 (VInt32 100) = Inr 100
   \<and> DataSource_write scalar_Int32 \<lparr>data = 42\<rparr> \<lparr>dv_value = VInt32 100, sourceTimestamp = None\<rparr>
       = Inr (\<lparr>data = 100\<rparr>, UA_STATUSCODE_GOOD)
   \<and> DataSource_read VInt32 7 \<lparr>data = 100 :: int32_t\<rparr> \<lparr>dv_value = VEmpty, sourceTimestamp = None\<rparr> True
       = (\<lparr>data = 100\<rparr>, \<lparr>dv_value = VInt32 100, sourceTimestamp = Some 7\<rparr>, UA_STATUSCODE_GOOD)
   \<and> DataSource_write scalar_Int32 \<lparr>data = 42\<rparr> \<lparr>dv_value = VEmpty, sourceTimestamp = None\<rparr>
       = Inl BadVariantAccess"
proof -
  have h: "scalar_Int32 (VInt32 100) = Inr 100" by simp
  from h DataSource_write_then_read [where to = scalar_Int32 and mk = VInt32 and x = 100
      and this = "\<lparr>data = 42\<rparr>" and dv = "\<lparr>dv_value = VEmpty, sourceTimestamp = None\<rparr>"]
  have "DataSource_write scalar_Int32 \<lparr>data = 42\<rparr> \<lparr>dv_value = VInt32 100, sourceTimestamp = None\<rparr>
       = Inr (\<lparr>data = 100\<rparr>, UA_STATUSCODE_GOOD)
     \<and> DataSource_write scalar_Int32 \<lparr>data = 42\<rparr> \<lparr>dv_value = VEmpty, sourceTimestamp = None\<rparr>
       = Inl BadVariantAccess"
    by simp
  then show ?thesis
    by (simp add: DataSource_read_def)
qed

section \<open>Properties of the access control\<close>

lemma decodes_to_admin:
  "(case decodedData_UserNameIdentityToken tok of None \<Rightarrow> False
      | Some t \<Rightarrow> userName t = ''admin'')
     \<longleftrightarrow> (\<exists>p. tok = UserNameIdentityToken ''admin'' p)"
  by (cases tok) auto

lemma getUserAccessLevel_of_boolean:
  "sessionAttributes session (0, ''isAdmin'') = Some (VBoolean b) \<Longrightarrow>
     AccessControlCustom_getUserAccessLevel session nodeId
       = Inr (if b then CurrentRead OR CurrentWrite else CurrentRead)"
  by (simp add: AccessControlCustom_getUserAccessLevel_def getSessionAttribute_def)

lemma activateSession_result:
  "AccessControlCustom_activateSession base session e c tok =
     (setSessionAttribute session (0, ''isAdmin'')
        (VBoolean (\<exists>p. tok = UserNameIdentityToken ''admin'' p)),
      base (setSessionAttribute session (0, ''isAdmin'')
        (VBoolean (\<exists>p. tok = UserNameIdentityToken ''admin'' p))) e c tok)"
  by (simp add: AccessControlCustom_activateSession_def Let_def decodes_to_admin)

lemma getUserAccessLevel_without_attribute:
  "sessionAttributes session (0, ''isAdmin'') = None \<Longrightarrow>
     AccessControlCustom_getUserAccessLevel session nodeId = Inl BadStatus"
  by (simp add: AccessControlCustom_getUserAccessLevel_def getSessionAttribute_def)

text \<open>
  C9. \<^verbatim>\<open>activateSession\<close> stores the session attribute \<^verbatim>\<open>isAdmin\<close> as true exactly when
  the user identity token decodes to a user name token whose user name is \<^verbatim>\<open>admin\<close> (false
  for an anonymous or any other token), leaves the other attributes as they were, and
  returns what the default implementation returns on that session. For every session that
  \<^verbatim>\<open>activateSession\<close> has returned, whatever session, token and default implementation it
  started from, and for every node id, \<^verbatim>\<open>getUserAccessLevel\<close> returns
  \<^verbatim>\<open>CurrentRead | CurrentWrite\<close> when the attribute \<^verbatim>\<open>isAdmin\<close> of the session is true and
  exactly \<^verbatim>\<open>CurrentRead\<close>, which has no write bit, otherwise. The same result is returned
  for any session whose attribute holds a boolean. (The override stores the attribute
  before it calls the default implementation, so a session reaches \<^verbatim>\<open>getUserAccessLevel\<close>
  with the attribute stored; \<open>getUserAccessLevel_without_attribute\<close> says what a session
  without it would meet.)
\<close>

theorem AccessControlCustom_access:
  assumes "AccessControlCustom_activateSession base session0 e c tok = (session, status)"
  shows "sessionAttributes session (0, ''isAdmin'')
           = Some (VBoolean (\<exists>p. tok = UserNameIdentityToken ''admin'' p))
         \<and> (\<forall>key. key \<noteq> (0, ''isAdmin'') \<longrightarrow>
               sessionAttributes session key = sessionAttributes session0 key)
         \<and> status = base session e c tok
         \<and> AccessControlCustom_getUserAccessLevel session nodeId
             = Inr (if sessionAttributes session (0, ''isAdmin'') = Some (VBoolean True)
                    then CurrentRead OR CurrentWrite else CurrentRead)
         \<and> (\<forall>s b. sessionAttributes s (0, ''isAdmin'') = Some (VBoolean b) \<longrightarrow>
               AccessControlCustom_getUserAccessLevel s nodeId
                 = Inr (if b then CurrentRead OR CurrentWrite else CurrentRead))
         \<and> CurrentRead OR CurrentWrite \<noteq> CurrentRead
         \<and> CurrentRead AND CurrentWrite = 0"
proof -
  let ?adm = "\<exists>p. tok = UserNameIdentityToken ''admin'' p"
  let ?s = "setSessionAttribute session0 (0, ''isAdmin'') (VBoolean ?adm)"
  from assms have s: "session = ?s" and st: "status = base ?s e c tok"
    by (auto simp: activateSession_result)
  have attr: "sessionAttributes ?s (0, ''isAdmin'') = Some (VBoolean ?adm)"
    by (simp add: setSessionAttribute_def)
  have frame: "\<forall>key. key \<noteq> (0, ''isAdmin'') \<longrightarrow>
      sessionAttributes ?s key = sessionAttributes session0 key"
    by (simp add: setSessionAttribute_def)
  have "AccessControlCustom_getUserAccessLevel ?s nodeId
      = Inr (if ?adm then CurrentRead OR CurrentWrite else CurrentRead)"
    using attr by (rule getUserAccessLevel_of_boolean)
  with attr have level: "AccessControlCustom_getUserAccessLevel ?s nodeId
      = Inr (if sessionAttributes ?s (0, ''isAdmin'') = Some (VBoolean True)
             then CurrentRead OR CurrentWrite else CurrentRead)"
    by simp
  have any: "\<forall>s b. sessionAttributes s (0, ''isAdmin'') = Some (VBoolean b) \<longrightarrow>
      AccessControlCustom_getUserAccessLevel s nodeId
        = Inr (if b then CurrentRead OR CurrentWrite else CurrentRead)"
    using getUserAccessLevel_of_boolean by blast
  have bits: "CurrentRead OR CurrentWrite \<noteq> CurrentRead" "CurrentRead AND CurrentWrite = 0"
    by (simp_all add: CurrentRead_def CurrentWrite_def)
  from s st attr frame level any bits show ?thesis by blast
qed

theorem AccessControlCustom_access_witness:
  "AccessControlCustom_getUserAccessLevel
      (fst (AccessControlCustom_activateSession (\<lambda>s e c t. UA_STATUSCODE_GOOD)
         \<lparr>sessionAttributes = Map.empty\<rparr> () () (UserNameIdentityToken ''admin'' ''admin'')))
      (NumericNodeId 1 1000) = Inr 3
   \<and> AccessControlCustom_getUserAccessLevel
      (fst (AccessControlCustom_activateSession (\<lambda>s e c t. UA_STATUSCODE_GOOD)
         \<lparr>sessionAttributes = Map.empty\<rparr> () () (UserNameIdentityToken ''user'' ''user'')))
      (NumericNodeId 1 1000) = Inr 1
   \<and> AccessControlCustom_getUserAccessLevel
      (fst (AccessControlCustom_activateSession (\<lambda>s e c t. UA_STATUSCODE_GOOD)
         \<lparr>sessionAttributes = [(0, ''isAdmin'') \<mapsto> VBoolean True]\<rparr> () () AnonymousIdentityToken))
      (NumericNodeId 1 1000) = Inr 1
   \<and> AccessControlCustom_getUserAccessLevel
      \<lparr>sessionAttributes = [(0, ''isAdmin'') \<mapsto> VBoolean True]\<rparr> (NumericNodeId 1 1000)
      = Inr 3"
proof -
  let ?base = "\<lambda>(s :: Session) (e :: unit) (c :: unit) (t :: ExtensionObject). UA_STATUSCODE_GOOD"
  let ?n = "NumericNodeId 1 1000"
  have run: "AccessControlCustom_activateSession ?base s0 () () tok
      = (fst (AccessControlCustom_activateSession ?base s0 () () tok),
         snd (AccessControlCustom_activateSession ?base s0 () () tok))" for s0 tok
    by simp
  note acc = AccessControlCustom_access [OF run, where nodeId = ?n]
  have lv: "sessionAttributes (fst (AccessControlCustom_activateSession ?base s0 () () tok))
        (0, ''isAdmin'') = Some (VBoolean (\<exists>p. tok = UserNameIdentityToken ''admin'' p))
      \<and> AccessControlCustom_getUserAccessLevel
        (fst (AccessControlCustom_activateSession ?base s0 () () tok)) ?n
      = Inr (if sessionAttributes (fst (AccessControlCustom_activateSession ?base s0 () () tok))
                (0, ''isAdmin'') = Some (VBoolean True)
             then CurrentRead OR CurrentWrite else CurrentRead)" for s0 tok
    using acc [of s0 tok] by blast
  have stored: "AccessControlCustom_getUserAccessLevel
      \<lparr>sessionAttributes = [(0, ''isAdmin'') \<mapsto> VBoolean True]\<rparr> ?n
      = Inr (CurrentRead OR CurrentWrite)"
    using acc [of "\<lparr>sessionAttributes = Map.empty\<rparr>" AnonymousIdentityToken] by simp
  show ?thesis
    using lv [of "\<lparr>sessionAttributes = Map.empty\<rparr>" "UserNameIdentityToken ''admin'' ''admin''"]
      lv [of "\<lparr>sessionAttributes = Map.empty\<rparr>" "UserNameIdentityToken ''user'' ''user''"]
      lv [of "\<lparr>sessionAttributes = [(0, ''isAdmin'') \<mapsto> VBoolean True]\<rparr>" AnonymousIdentityToken]
      stored
    by (simp add: CurrentRead_def CurrentWrite_def)
qed

section \<open>Properties of the connect example\<close>

lemma usage_iff:
  "(nargs \<lparr>args = argv\<rparr> < 2 \<or> hasFlag \<lparr>args = argv\<rparr> ''-h'' \<or> hasFlag \<lparr>args = argv\<rparr> ''--help'')
     \<longleftrightarrow> (length argv < 2 \<or> ''-h'' \<in> set argv \<or> ''--help'' \<in> set argv)"
  by (simp add: nargs_def hasFlag_def)

text \<open>
  C5 (as stated, refuted). The claim says that after a successful connect the client is
  disconnected and the program returns 0 whether the read succeeds or fails. When the read
  succeeds (\<^verbatim>\<open>hasValue()\<close> holds) with a variant that holds no \<^verbatim>\<open>DateTime\<close>, here an empty
  one, the conversion \<^verbatim>\<open>to<opcua::DateTime>()\<close> throws outside every handler: the program
  neither disconnects nor returns.
\<close>

theorem client_connect_read_counterexample:
  "hasValue (read_result \<lparr>connect_throws = False, read_result = GoodResult VEmpty\<rparr>)
   \<and> client_connect_main [''client_connect'', ''opc.tcp://localhost:4840'']
        \<lparr>connect_throws = False, read_result = GoodResult VEmpty\<rparr>
     = ([ClientConstructed, ConnectCalled ''opc.tcp://localhost:4840'', ReadValueCalled],
        Uncaught BadVariantAccess)"
  by (simp add: client_connect_main_def nargs_def hasFlag_def option_value_def)

text \<open>
  C5 (amended). If fewer than two command-line arguments are supplied (the program name
  counts) or the flag \<^verbatim>\<open>-h\<close> or \<^verbatim>\<open>--help\<close> is present, the program prints the usage and
  returns 2 without constructing a client. Otherwise, if \<^verbatim>\<open>Client::connect\<close> throws, the
  exception is caught and the program returns 1, without reading or disconnecting.
  Otherwise the value is read and the result checked with \<^verbatim>\<open>hasValue()\<close>: when the read
  fails, or succeeds with a \<^verbatim>\<open>DateTime\<close>, the client is disconnected last and the program
  returns 0; when it succeeds with a value of another type the conversion throws, uncaught,
  and the client is not disconnected.
\<close>

theorem client_connect_exit_codes:
  "(length argv < 2 \<or> ''-h'' \<in> set argv \<or> ''--help'' \<in> set argv \<longrightarrow>
      client_connect_main argv server = ([UsagePrinted], Returned 2))
   \<and> (\<not> (length argv < 2 \<or> ''-h'' \<in> set argv \<or> ''--help'' \<in> set argv)
        \<and> connect_throws server \<longrightarrow>
      snd (client_connect_main argv server) = Returned 1
      \<and> last (fst (client_connect_main argv server)) = ConnectFailureReported
      \<and> ReadValueCalled \<notin> set (fst (client_connect_main argv server))
      \<and> DisconnectCalled \<notin> set (fst (client_connect_main argv server)))
   \<and> (\<not> (length argv < 2 \<or> ''-h'' \<in> set argv \<or> ''--help'' \<in> set argv)
        \<and> \<not> connect_throws server
        \<and> (\<not> hasValue (read_result server)
            \<or> (\<exists>t. read_result server = GoodResult (VDateTime t))) \<longrightarrow>
      snd (client_connect_main argv server) = Returned 0
      \<and> ReadValueCalled \<in> set (fst (client_connect_main argv server))
      \<and> last (fst (client_connect_main argv server)) = DisconnectCalled)
   \<and> (\<not> (length argv < 2 \<or> ''-h'' \<in> set argv \<or> ''--help'' \<in> set argv)
        \<and> \<not> connect_throws server
        \<and> hasValue (read_result server)
        \<and> to_DateTime (result_value (read_result server)) = Inl e \<longrightarrow>
      snd (client_connect_main argv server) = Uncaught e
      \<and> DisconnectCalled \<notin> set (fst (client_connect_main argv server)))"
proof -
  let ?usage = "length argv < 2 \<or> ''-h'' \<in> set argv \<or> ''--help'' \<in> set argv"
  have a: "?usage \<longrightarrow> client_connect_main argv server = ([UsagePrinted], Returned 2)"
    by (simp add: client_connect_main_def usage_iff)
  have b: "\<not> ?usage \<and> connect_throws server \<longrightarrow>
      snd (client_connect_main argv server) = Returned 1
      \<and> last (fst (client_connect_main argv server)) = ConnectFailureReported
      \<and> ReadValueCalled \<notin> set (fst (client_connect_main argv server))
      \<and> DisconnectCalled \<notin> set (fst (client_connect_main argv server))"
    by (auto simp: client_connect_main_def usage_iff Let_def split: option.splits)
  have c: "\<not> ?usage \<and> \<not> connect_throws server
        \<and> (\<not> hasValue (read_result server)
            \<or> (\<exists>t. read_result server = GoodResult (VDateTime t))) \<longrightarrow>
      snd (client_connect_main argv server) = Returned 0
      \<and> ReadValueCalled \<in> set (fst (client_connect_main argv server))
      \<and> last (fst (client_connect_main argv server)) = DisconnectCalled"
    by (auto simp: client_connect_main_def usage_iff Let_def split: option.splits)
  have d: "\<not> ?usage \<and> \<not> connect_throws server \<and> hasValue (read_result server)
        \<and> to_DateTime (result_value (read_result server)) = Inl e \<longrightarrow>
      snd (client_connect_main argv server) = Uncaught e
      \<and> DisconnectCalled \<notin> set (fst (client_connect_main argv server))"
    by (auto simp: client_connect_main_def usage_iff Let_def split: option.splits)
  from a b c d show ?thesis by blast
qed

theorem client_connect_exit_codes_witness:
  "client_connect_main [''client_connect'', ''--help''] \<lparr>connect_throws = False, read_result = BadResult 1\<rparr>
     = ([UsagePrinted], Returned 2)
   \<and> snd (client_connect_main [''client_connect'', ''opc.tcp://localhost:4840'']
        \<lparr>connect_throws = True, read_result = BadResult 1\<rparr>) = Returned 1
   \<and> snd (client_connect_main [''client_connect'', ''opc.tcp://localhost:4840'']
        \<lparr>connect_throws = False, read_result = BadResult 1\<rparr>) = Returned 0
   \<and> snd (client_connect_main [''client_connect'', ''opc.tcp://localhost:4840'']
        \<lparr>connect_throws = False, read_result = GoodResult (VDateTime 42)\<rparr>) = Returned 0
   \<and> snd (client_connect_main [''client_connect'', ''opc.tcp://localhost:4840'']
        \<lparr>connect_throws = False, read_result = GoodResult (VInt32 42)\<rparr>) = Uncaught BadVariantAccess"
proof -
  let ?url = "[''client_connect'', ''opc.tcp://localhost:4840'']"
  have "client_connect_main [''client_connect'', ''--help'']
          \<lparr>connect_throws = False, read_result = BadResult 1\<rparr> = ([UsagePrinted], Returned 2)"
    using client_connect_exit_codes [of "[''client_connect'', ''--help'']"
        "\<lparr>connect_throws = False, read_result = BadResult 1\<rparr>" BadStatus]
    by simp
  moreover have "snd (client_connect_main ?url \<lparr>connect_throws = True, read_result = BadResult 1\<rparr>)
      = Returned 1"
    using client_connect_exit_codes [of ?url
        "\<lparr>connect_throws = True, read_result = BadResult 1\<rparr>" BadStatus]
    by simp
  moreover have "snd (client_connect_main ?url \<lparr>connect_throws = False, read_result = BadResult 1\<rparr>)
      = Returned 0"
    using client_connect_exit_codes [of ?url
        "\<lparr>connect_throws = False, read_result = BadResult 1\<rparr>" BadStatus]
    by simp
  moreover have "snd (client_connect_main ?url
        \<lparr>connect_throws = False, read_result = GoodResult (VDateTime 42)\<rparr>) = Returned 0"
    using client_connect_exit_codes [of ?url
        "\<lparr>connect_throws = False, read_result = GoodResult (VDateTime 42)\<rparr>" BadStatus]
    by simp
  moreover have "snd (client_connect_main ?url
        \<lparr>connect_throws = False, read_result = GoodResult (VInt32 42)\<rparr>) = Uncaught BadVariantAccess"
    using client_connect_exit_codes [of ?url
        "\<lparr>connect_throws = False, read_result = GoodResult (VInt32 42)\<rparr>" BadVariantAccess]
    by simp
  ultimately show ?thesis by blast
qed

section \<open>Properties of the subscription example\<close>

lemma deliver_all_cleared: "deliver_all sigs False = Inr r \<Longrightarrow> \<not> r"
  by (induction sigs) (auto simp: deliver_def signalHandler_def split: if_splits)

lemma deliver_all_SIGINT:
  "set sigs \<subseteq> {SIGINT} \<Longrightarrow> deliver_all sigs isRunning = Inr (isRunning \<and> sigs = [])"
  by (induction sigs arbitrary: isRunning) (auto simp: deliver_def signalHandler_def installed_def)

lemma shutdown_calls: "x \<in> set (fst (shutdown r ts)) \<Longrightarrow> x = Disconnect"
  by (cases ts) (auto split: sum.splits)

lemma outer_loop_stopped: "outer_loop False ts = shutdown False ts"
  by (subst outer_loop.simps) simp

lemma inner_loop_stopped: "inner_loop False ts = shutdown False ts"
  by (subst inner_loop.simps) (simp add: outer_loop_stopped)

text \<open>
  Once the flag is cleared it stays cleared, and neither loop is entered again: what is
  left of the run calls \<^verbatim>\<open>disconnect\<close>, and inside the exception handler the sleep, and
  nothing else.
\<close>

lemma catch_BadStatus_stopped:
  "x \<in> set (fst (catch_BadStatus False ts)) \<Longrightarrow> x = Disconnect \<or> x = Sleep 3"
proof (cases ts)
  case Nil
  then show "x \<in> set (fst (catch_BadStatus False ts)) \<Longrightarrow> x = Disconnect \<or> x = Sleep 3"
    by simp
next
  case (Cons t ts')
  assume x: "x \<in> set (fst (catch_BadStatus False ts))"
  show "x = Disconnect \<or> x = Sleep 3"
  proof (cases ts')
    case Nil
    with Cons x show ?thesis by (auto split: sum.splits if_splits)
  next
    case (Cons t' ts'')
    with \<open>ts = t # ts'\<close> x show ?thesis
      by (auto simp: after_def outer_loop_stopped split: sum.splits if_splits
          dest!: deliver_all_cleared shutdown_calls)
  qed
qed

text \<open>
  A shutdown that only \<^verbatim>\<open>SIGINT\<close> reaches ends with the disconnect and exit code 0.
\<close>

lemma graceful_shutdown:
  "set (arriving t) \<subseteq> {SIGINT} \<Longrightarrow> inner_loop False (t # ts) = ([Disconnect], Exited 0)"
  by (simp add: inner_loop_stopped deliver_all_SIGINT)

text \<open>
  A \<^verbatim>\<open>SIGINT\<close> that arrives during a poll: if the poll returns, the loops are left and
  the program disconnects and exits with 0; if the poll throws \<^verbatim>\<open>BadStatus\<close>, the handler
  disconnects and sleeps first. In neither case is there another connect or poll.
\<close>

lemma SIGINT_during_poll:
  assumes "arriving t = [SIGINT]" and "\<not> badStatus t" and "set (arriving t1) \<subseteq> {SIGINT}"
  shows "inner_loop True (t # t1 # ts) = ([RunIterate 100, Disconnect], Exited 0)"
  using assms
  by (subst inner_loop.simps)
    (simp add: deliver_def installed_def signalHandler_def after_def inner_loop_stopped
      deliver_all_SIGINT)

lemma SIGINT_during_failing_poll:
  assumes "arriving t = [SIGINT]" and "badStatus t"
    and "set (arriving t1) \<subseteq> {SIGINT}" and "\<not> badStatus t1"
    and "set (arriving t2) \<subseteq> {SIGINT}" and "set (arriving t3) \<subseteq> {SIGINT}"
  shows "inner_loop True (t # t1 # t2 # t3 # ts)
           = ([RunIterate 100, Disconnect, Sleep 3, Disconnect], Exited 0)"
  using assms
  by (subst inner_loop.simps)
    (simp add: deliver_def installed_def signalHandler_def after_def outer_loop_stopped
      deliver_all_SIGINT)

text \<open>Every poll of the client loop runs with the interval 100.\<close>

lemma RunIterate_interval:
  "RunIterate n \<in> set (fst (outer_loop r ts)) \<longrightarrow> n = 100"
  "RunIterate n \<in> set (fst (inner_loop r ts)) \<longrightarrow> n = 100"
  "RunIterate n \<in> set (fst (catch_BadStatus r ts)) \<longrightarrow> n = 100"
proof (induction r ts and r ts and r ts rule: outer_loop_inner_loop_catch_BadStatus.induct)
  case (1 isRunning ts)
  show ?case
    apply (subst outer_loop.simps)
    using 1
    by (auto simp: after_def split: sum.splits list.splits if_splits dest: shutdown_calls)
next
  case (2 isRunning ts)
  show ?case
    apply (subst inner_loop.simps)
    using 2
    by (auto simp: after_def split: sum.splits list.splits if_splits)
next
  case (3 isRunning)
  then show ?case by simp
next
  case (4 isRunning t ts)
  then show ?case
    by (auto simp: after_def split: sum.splits list.splits if_splits)
qed

text \<open>
  After a \<^verbatim>\<open>BadStatus\<close> that no signal accompanies, the program disconnects, sleeps for
  three seconds and goes back to the head of the reconnect loop.
\<close>

lemma reconnect_after_BadStatus:
  assumes "arriving t = []" and "\<not> badStatus t" and "arriving t' = []"
  shows "catch_BadStatus isRunning (t # t' # ts)
           = after [Disconnect, Sleep 3] (outer_loop isRunning ts)"
  using assms by simp

text \<open>
  C6. The claim describes the shutdown for \<^verbatim>\<open>SIGINT\<close> and for \<^verbatim>\<open>SIGTERM\<close>, and so does
  the handler, which clears the flag for both. \<^verbatim>\<open>main\<close> installs the handler for
  \<^verbatim>\<open>SIGINT\<close> only. A \<^verbatim>\<open>SIGTERM\<close> that arrives during a poll therefore ends the process
  by its default action, with no disconnect; the same run with \<^verbatim>\<open>SIGINT\<close> ends as the
  claim says.
\<close>

theorem SIGTERM_is_not_handled:
  "signalHandler SIGTERM True = False
   \<and> \<not> installed SIGTERM
   \<and> client_subscription_main
        [\<lparr>arriving = [], badStatus = False\<rparr>, \<lparr>arriving = [SIGTERM], badStatus = False\<rparr>,
         \<lparr>arriving = [], badStatus = False\<rparr>]
     = ([Connect, RunIterate 100], KilledBy SIGTERM)
   \<and> client_subscription_main
        [\<lparr>arriving = [], badStatus = False\<rparr>, \<lparr>arriving = [SIGINT], badStatus = False\<rparr>,
         \<lparr>arriving = [], badStatus = False\<rparr>]
     = ([Connect, RunIterate 100, Disconnect], Exited 0)"
  by (simp add: client_subscription_main_def outer_loop.simps inner_loop.simps after_def
      deliver_def installed_def signalHandler_def)

end
